theory Spec2Isabelle
  imports Main
begin

section \<open>The notes feature of supanext\<close>

text \<open>
  The notes feature is three pieces of code: the server actions \<open>addNote\<close> and
  \<open>deleteNote\<close> of \<^verbatim>\<open>app/notes/actions.ts\<close>, and the server component
  \<open>NotesContent\<close> of \<^verbatim>\<open>app/notes/page.tsx\<close>. Each of them sends one request to the
  table \<open>notes\<close> of the hosted database; the two actions then call \<open>revalidatePath\<close>.

  The database and the framework's cache are the state of the model (\<open>world\<close>), passed
  explicitly. What the database answers to a request is not decided by this code, so the
  answer is an argument of each operation (\<open>reply\<close>), and so are the clock that
  \<open>new Date()\<close> reads and the identifier the database gives to a new row.
\<close>

subsection \<open>Data\<close>

text \<open>
  The object literal that \<open>addNote\<close> hands to \<open>insert\<close>: \<open>{ title, description,
  created_at: createdAt }\<close>. It has no \<open>id\<close> field. \<open>description\<close> is what
  \<open>formData.get\<close> returned, which is \<open>null\<close> for a form without that field.
  A \<open>Date\<close> is its number of milliseconds since the epoch.
\<close>

record new_note =
  title :: string
  description :: "string option"
  created_at :: int

text \<open>A row of the table \<open>notes\<close>: the columns of the inserted object and \<open>id\<close>.\<close>

record Note = new_note +
  note_id :: string

text \<open>
  The state: the rows of the table, in the order in which the database returns them, and
  the rendered views that the framework holds, by path.
\<close>

record card =
  key :: string
  card_title :: string
  card_text :: "string option"
  noteId :: string

record view =
  cards :: "card list"
  no_notes_yet :: bool

record world =
  rows :: "Note list"
  cached :: "string \<rightharpoonup> view"

text \<open>
  An asynchronous operation either returns a value or throws; both leave a state behind.
\<close>

datatype 'a result = Returned 'a world | Raised string world

fun world_of :: "'a result \<Rightarrow> world" where
  "world_of (Returned _ w) = w"
| "world_of (Raised _ w) = w"

fun has_raised :: "'a result \<Rightarrow> bool" where
  "has_raised (Returned _ _) = False"
| "has_raised (Raised _ _) = True"

subsection \<open>The collaborators\<close>

text \<open>
  What the database does with one request. The awaited request either resolves with a
  response without error (\<open>Success\<close>), resolves with a response whose \<open>error\<close> field is
  set (\<open>Failure\<close>), or rejects, which throws at the \<open>await\<close> (\<open>Rejection\<close>).
\<close>

datatype reply = Success | Failure string | Rejection string

text \<open>
  \<open>formData.get(name)\<close>: the value of the first entry of that name, \<open>null\<close> when there
  is none. The form of \<open>AddNoteForm\<close> has text inputs only, and the action reads both
  values \<open>as string\<close>.
\<close>

type_synonym form_data = "(string \<times> string) list"

definition formData_get :: "form_data \<Rightarrow> string \<Rightarrow> string option" where
  "formData_get formData name = map_of formData name"

text \<open>
  Modelled from the spec: the table \<open>notes\<close> is the external data store, with "columns
  \<open>id\<close> (unique identifier, generated by the store), \<open>title\<close>, \<open>description\<close>,
  \<open>created_at\<close>"; the application "performs insert, delete-by-id, and select-all against
  this table". An insert that the store accepts appends the row, the store choosing its
  \<open>id\<close>; a delete removes the rows that match the filter, and "deleting a nonexistent
  identifier is a silent no-op from the store's perspective"; a select without filter
  returns every row. A request that fails leaves the table as it was. The first component
  of the result is the \<open>error\<close> field (for select, the \<open>data\<close> field) of the response.
\<close>

definition store_insert ::
  "reply \<Rightarrow> string \<Rightarrow> new_note \<Rightarrow> Note list \<Rightarrow> string + (string option \<times> Note list)" where
  "store_insert r i v table =
     (case r of
        Success \<Rightarrow>
          Inr (None, table @ [\<lparr>title = title v, description = description v,
                               created_at = created_at v, note_id = i\<rparr>])
      | Failure e \<Rightarrow> Inr (Some e, table)
      | Rejection e \<Rightarrow> Inl e)"

definition store_delete_eq_id ::
  "reply \<Rightarrow> string \<Rightarrow> Note list \<Rightarrow> string + (string option \<times> Note list)" where
  "store_delete_eq_id r i table =
     (case r of
        Success \<Rightarrow> Inr (None, filter (\<lambda>n. note_id n \<noteq> i) table)
      | Failure e \<Rightarrow> Inr (Some e, table)
      | Rejection e \<Rightarrow> Inl e)"

definition store_select :: "reply \<Rightarrow> Note list \<Rightarrow> string + Note list option" where
  "store_select r table =
     (case r of
        Success \<Rightarrow> Inr (Some table)
      | Failure e \<Rightarrow> Inr None
      | Rejection e \<Rightarrow> Inl e)"

text \<open>
  Modelled from the spec: \<open>revalidatePath\<close> is the framework's (\<open>next/cache\<close>). Cache
  invalidation is "the act of marking a previously rendered view stale so the next render
  re-fetches from the store": the view held for the path is dropped.
\<close>

definition revalidatePath :: "string \<Rightarrow> world \<Rightarrow> world" where
  "revalidatePath path w = w\<lparr>cached := (cached w)(path := None)\<rparr>"

subsection \<open>The server actions\<close>

text \<open>
  \<open>addNote(formData)\<close>. \<open>createdAt\<close> the value of \<open>new Date()\<close>, \<open>i\<close> the identifier the
  store gives to the row if it accepts it, \<open>r\<close> the store's answer to the insert.
  \<open>createClient()\<close> only builds the handle to the store, which here is the field \<open>rows\<close>.
  \<open>!title\<close> holds of \<open>null\<close> and of the empty string, and of no other string. The
  response of the insert is awaited and dropped.
\<close>

definition addNote :: "int \<Rightarrow> string \<Rightarrow> reply \<Rightarrow> form_data \<Rightarrow> world \<Rightarrow> unit result" where
  "addNote createdAt i r formData w =
     (let title_v = formData_get formData ''title'';
          description_v = formData_get formData ''description''
      in case title_v of
           None \<Rightarrow> Returned () w
         | Some t \<Rightarrow>
             if t = [] then Returned () w
             else (case store_insert r i
                          \<lparr>title = t, description = description_v, created_at = createdAt\<rparr>
                          (rows w) of
                     Inl e \<Rightarrow> Raised e w
                   | Inr (_, table) \<Rightarrow>
                       Returned () (revalidatePath ''/notes'' (w\<lparr>rows := table\<rparr>))))"

text \<open>\<open>deleteNote(id)\<close>: the delete request filtered by \<open>eq('id', id)\<close>, then the revalidation.\<close>

definition deleteNote :: "reply \<Rightarrow> string \<Rightarrow> world \<Rightarrow> unit result" where
  "deleteNote r i w =
     (case store_delete_eq_id r i (rows w) of
        Inl e \<Rightarrow> Raised e w
      | Inr (_, table) \<Rightarrow> Returned () (revalidatePath ''/notes'' (w\<lparr>rows := table\<rparr>)))"

subsection \<open>The listing\<close>

text \<open>
  \<open>NotesContent()\<close>: \<open>const { data: notes } = await supabase.from('notes').select()\<close>,
  then one card for each note (\<open>notes?.map\<close>), with its \<open>id\<close> as key and as the
  \<open>noteId\<close> of its delete button, and the paragraph "No notes yet. Add one above!" when
  \<open>!notes || notes.length === 0\<close>. The form below the cards is the same in every view.
\<close>

definition note_card :: "Note \<Rightarrow> card" where
  "note_card n =
     \<lparr>key = note_id n, card_title = title n, card_text = description n, noteId = note_id n\<rparr>"

definition NotesContent :: "reply \<Rightarrow> world \<Rightarrow> view result" where
  "NotesContent r w =
     (case store_select r (rows w) of
        Inl e \<Rightarrow> Raised e w
      | Inr notes \<Rightarrow>
          Returned
            \<lparr>cards = (case notes of None \<Rightarrow> [] | Some ns \<Rightarrow> map note_card ns),
             no_notes_yet = (case notes of None \<Rightarrow> True | Some ns \<Rightarrow> length ns = 0)\<rparr>
            w)"

text \<open>
  Modelled from the spec: how the framework serves the path \<open>/notes\<close> is not in the
  sources. A view that it holds for the path is served as it is; without one ("marked
  stale") the page is rendered from the store and the view is kept.
\<close>

definition serve_notes :: "reply \<Rightarrow> world \<Rightarrow> view result" where
  "serve_notes r w =
     (case cached w ''/notes'' of
        Some v \<Rightarrow> Returned v w
      | None \<Rightarrow>
          (case NotesContent r w of
             Raised e w' \<Rightarrow> Raised e w'
           | Returned v w' \<Rightarrow> Returned v (w'\<lparr>cached := (cached w')(''/notes'' \<mapsto> v)\<rparr>)))"

subsection \<open>The note interface\<close>

text \<open>
  What the application offers on notes: the form of \<open>AddNoteForm\<close> submits to
  \<open>addNote\<close>, the button of \<open>DeleteNoteButton\<close> calls \<open>deleteNote\<close> with the
  \<open>id\<close> of its card, and the page lists. \<^verbatim>\<open>actions.ts\<close> exports these two actions
  and nothing else. A request carries what its environment contributes to it.
\<close>

datatype request =
    Create int string reply form_data
  | Delete reply string
  | Listing reply

fun step :: "request \<Rightarrow> world \<Rightarrow> world" where
  "step (Create createdAt i r formData) w = world_of (addNote createdAt i r formData w)"
| "step (Delete r i) w = world_of (deleteNote r i w)"
| "step (Listing r) w = world_of (serve_notes r w)"

text \<open>
  A request that throws ends there; the next request finds the state it left.
\<close>

definition run :: "request list \<Rightarrow> world \<Rightarrow> world" where
  "run reqs w = fold step reqs w"

text \<open>The row of a given \<open>id\<close>, as the table has it.\<close>

definition find_note :: "string \<Rightarrow> world \<Rightarrow> Note option" where
  "find_note k w = find (\<lambda>n. note_id n = k) (rows w)"

text \<open>
  The source has no notion of whitespace. This predicate only delimits the titles that
  the statement on whitespace-only titles is about: non-empty strings of spaces, tabs,
  line feeds, vertical tabs, form feeds and carriage returns.
\<close>

definition whitespace_only :: "string \<Rightarrow> bool" where
  "whitespace_only s =
     (s \<noteq> [] \<and> list_all (\<lambda>c. c \<in> set [CHR '' '', CHR 0x09, CHR 0x0A, CHR 0x0B, CHR 0x0C, CHR 0x0D]) s)"

section \<open>Properties\<close>

subsection \<open>Auxiliary facts\<close>

lemma addNote_nonempty:
  assumes "formData_get formData ''title'' = Some T" and "T \<noteq> []"
  shows "addNote createdAt i r formData w =
     (case store_insert r i
             \<lparr>title = T, description = formData_get formData ''description'',
              created_at = createdAt\<rparr> (rows w) of
        Inl e \<Rightarrow> Raised e w
      | Inr (_, table) \<Rightarrow> Returned () (revalidatePath ''/notes'' (w\<lparr>rows := table\<rparr>)))"
  using assms by (simp add: addNote_def)

lemma rows_revalidatePath: "rows (revalidatePath p w) = rows w"
  by (simp add: revalidatePath_def)

lemma cached_revalidatePath: "cached (revalidatePath p w) p = None"
  by (simp add: revalidatePath_def)

lemma serve_notes_after_revalidate:
  "serve_notes Success (revalidatePath ''/notes'' w) =
     Returned \<lparr>cards = map note_card (rows w), no_notes_yet = (rows w = [])\<rparr>
       (w\<lparr>cached := (cached w)(''/notes'' \<mapsto>
            \<lparr>cards = map note_card (rows w), no_notes_yet = (rows w = [])\<rparr>)\<rparr>)"
  by (simp add: serve_notes_def revalidatePath_def NotesContent_def store_select_def)

lemma addNote_returned_revalidated:
  assumes "formData_get formData ''title'' = Some T" and "T \<noteq> []"
    and "addNote createdAt i r formData w = Returned () w'"
  shows "\<exists>w1. w' = revalidatePath ''/notes'' w1"
  using assms by (auto simp: addNote_nonempty split: sum.splits)

lemma deleteNote_returned_revalidated:
  assumes "deleteNote r k w = Returned () w'"
  shows "\<exists>w1. w' = revalidatePath ''/notes'' w1"
  using assms by (auto simp: deleteNote_def split: sum.splits)

lemma find_append_found: "find P xs = Some x \<Longrightarrow> find P (xs @ ys) = Some x"
  by (induction xs) (auto split: if_splits)

lemma find_filter_other:
  "i \<noteq> k \<Longrightarrow>
   find (\<lambda>n. note_id n = k) (filter (\<lambda>n. note_id n \<noteq> i) xs) = find (\<lambda>n. note_id n = k) xs"
  by (induction xs) auto

lemma find_filter_none:
  "find (\<lambda>n. note_id n = k) (filter (\<lambda>n. note_id n \<noteq> k) xs) = None"
  by (induction xs) auto

lemma rows_addNote:
  "rows (world_of (addNote createdAt i r formData w)) = rows w
   \<or> (\<exists>n. rows (world_of (addNote createdAt i r formData w)) = rows w @ [n])"
  by (cases r)
     (auto simp: addNote_def store_insert_def rows_revalidatePath split: option.splits)

lemma rows_deleteNote:
  "rows (world_of (deleteNote r i w)) =
     (if r = Success then filter (\<lambda>n. note_id n \<noteq> i) (rows w) else rows w)"
  by (cases r) (auto simp: deleteNote_def store_delete_eq_id_def rows_revalidatePath)

lemma rows_serve_notes: "rows (world_of (serve_notes r w)) = rows w"
  by (cases r)
     (auto simp: serve_notes_def NotesContent_def store_select_def split: option.splits)

lemma find_note_step:
  assumes "find_note k w = Some n"
  shows "find_note k (step q w) = Some n
       \<or> (find_note k (step q w) = None \<and> q = Delete Success k)"
proof (cases q)
  case (Create createdAt i r formData)
  then show ?thesis
    using assms rows_addNote [of createdAt i r formData w]
    by (auto simp: find_note_def find_append_found)
next
  case (Delete r i)
  show ?thesis
  proof (cases "r = Success \<and> i = k")
    case True
    then show ?thesis
      using Delete by (simp add: find_note_def rows_deleteNote find_filter_none)
  next
    case False
    then have "find_note k (step q w) = find_note k w"
      using Delete by (auto simp: find_note_def rows_deleteNote find_filter_other)
    then show ?thesis
      using assms by simp
  qed
next
  case (Listing r)
  then show ?thesis
    using assms by (simp add: find_note_def rows_serve_notes)
qed

subsection \<open>Creation\<close>

text \<open>
  C1. A creation request with a non-empty title \<open>T\<close> and a description \<open>D\<close>, accepted
  by the store: \<open>addNote\<close> returns normally, and the table is the one before with one row
  appended, whose title is \<open>T\<close>, whose description is \<open>D\<close>, whose \<open>created_at\<close> is the
  date the action read, and whose \<open>id\<close> is the one the store chose (the inserted object
  has no \<open>id\<close> field). The listing served afterwards shows the cards of the listing
  before and one more card, with these values. Its identifier is non-empty when the
  store's identifiers are.
\<close>

theorem addNote_appends_record:
  assumes "formData_get formData ''title'' = Some T" and "T \<noteq> []"
    and "formData_get formData ''description'' = Some D"
    and "i \<noteq> []"
  shows "\<exists>w' v v' w''.
      addNote createdAt i Success formData w = Returned () w'
    \<and> rows w' = rows w @ [\<lparr>title = T, description = Some D, created_at = createdAt, note_id = i\<rparr>]
    \<and> NotesContent Success w = Returned v w
    \<and> serve_notes Success w' = Returned v' w''
    \<and> cards v' = cards v @ [\<lparr>key = i, card_title = T, card_text = Some D, noteId = i\<rparr>]
    \<and> length (cards v') = Suc (length (cards v))
    \<and> key (last (cards v')) \<noteq> []"
proof -
  let ?n = "\<lparr>title = T, description = Some D, created_at = createdAt, note_id = i\<rparr>"
  let ?w1 = "w\<lparr>rows := rows w @ [?n]\<rparr>"
  have a: "addNote createdAt i Success formData w = Returned () (revalidatePath ''/notes'' ?w1)"
    using assms(1,2,3) by (simp add: addNote_nonempty store_insert_def)
  have r: "rows (revalidatePath ''/notes'' ?w1) = rows w @ [?n]"
    by (simp add: revalidatePath_def)
  have l: "NotesContent Success w =
      Returned \<lparr>cards = map note_card (rows w), no_notes_yet = (rows w = [])\<rparr> w"
    by (simp add: NotesContent_def store_select_def)
  have c: "note_card ?n = \<lparr>key = i, card_title = T, card_text = Some D, noteId = i\<rparr>"
    by (simp add: note_card_def)
  show ?thesis
    using a r l c assms(4) serve_notes_after_revalidate [of ?w1]
    by simp
qed

theorem addNote_appends_record_witness:
  "formData_get [(''title'', ''A''), (''description'', ''B'')] ''title'' = Some ''A''
   \<and> ''A'' \<noteq> []
   \<and> formData_get [(''title'', ''A''), (''description'', ''B'')] ''description'' = Some ''B''
   \<and> ''n1'' \<noteq> []
   \<and> (\<exists>w' v v' w''.
        addNote 1700000000000 ''n1'' Success [(''title'', ''A''), (''description'', ''B'')]
          \<lparr>rows = [], cached = Map.empty\<rparr> = Returned () w'
      \<and> rows w' = rows \<lparr>rows = [], cached = Map.empty\<rparr>
           @ [\<lparr>title = ''A'', description = Some ''B'', created_at = 1700000000000,
               note_id = ''n1''\<rparr>]
      \<and> NotesContent Success \<lparr>rows = [], cached = Map.empty\<rparr>
           = Returned v \<lparr>rows = [], cached = Map.empty\<rparr>
      \<and> serve_notes Success w' = Returned v' w''
      \<and> cards v' = cards v
           @ [\<lparr>key = ''n1'', card_title = ''A'', card_text = Some ''B'', noteId = ''n1''\<rparr>]
      \<and> length (cards v') = Suc (length (cards v))
      \<and> key (last (cards v')) \<noteq> [])"
proof -
  have h1: "formData_get [(''title'', ''A''), (''description'', ''B'')] ''title'' = Some ''A''"
    by (simp add: formData_get_def)
  have h2: "''A'' \<noteq> []"
    by simp
  have h3: "formData_get [(''title'', ''A''), (''description'', ''B'')] ''description'' = Some ''B''"
    by (simp add: formData_get_def)
  have h4: "''n1'' \<noteq> []"
    by simp
  show ?thesis
    using h1 h2 h3 h4
      addNote_appends_record [OF h1 h2 h3 h4, where createdAt = 1700000000000
        and w = "\<lparr>rows = [], cached = Map.empty\<rparr>"]
    by blast
qed

text \<open>
  C2. When the form has no \<open>title\<close> entry, or its title is the empty string, \<open>addNote\<close>
  returns normally and the state is the one it started from: no row is inserted and no
  view is invalidated, whatever the store would have answered.
\<close>

theorem addNote_empty_title_noop:
  assumes "formData_get formData ''title'' = None \<or> formData_get formData ''title'' = Some []"
  shows "addNote createdAt i r formData w = Returned () w"
  using assms by (auto simp: addNote_def)

theorem addNote_empty_title_noop_witness:
  "formData_get [(''description'', ''B'')] ''title'' = None
   \<and> addNote 1700000000000 ''n1'' (Rejection ''fetch failed'') [(''description'', ''B'')]
        \<lparr>rows = [], cached = Map.empty\<rparr>
      = Returned () \<lparr>rows = [], cached = Map.empty\<rparr>
   \<and> formData_get [(''title'', ''''), (''description'', ''B'')] ''title'' = Some []
   \<and> addNote 1700000000000 ''n1'' Success [(''title'', ''''), (''description'', ''B'')]
        \<lparr>rows = [], cached = Map.empty\<rparr>
      = Returned () \<lparr>rows = [], cached = Map.empty\<rparr>"
  using addNote_empty_title_noop [of "[(''description'', ''B'')]" 1700000000000 "''n1''"
          "Rejection ''fetch failed''" "\<lparr>rows = [], cached = Map.empty\<rparr>"]
        addNote_empty_title_noop [of "[(''title'', ''''), (''description'', ''B'')]"
          1700000000000 "''n1''" Success "\<lparr>rows = [], cached = Map.empty\<rparr>"]
  by (simp add: formData_get_def)

subsection \<open>Failures of the store\<close>

text \<open>
  C3, as stated: every failure that the store reports during a create or delete request
  propagates out of the action. It does not hold of a failure reported in the \<open>error\<close>
  field of the response, which neither action reads: both return normally.
\<close>

theorem store_failure_not_propagated:
  "\<not> has_raised (addNote 1700000000000 ''n1''
          (Failure ''new row violates row-level security policy'')
          [(''title'', ''A''), (''description'', ''B'')] \<lparr>rows = [], cached = Map.empty\<rparr>)
   \<and> \<not> has_raised (deleteNote (Failure ''permission denied for table notes'') ''n1''
          \<lparr>rows = [\<lparr>title = ''A'', description = Some ''B'', created_at = 1700000000000,
                     note_id = ''n1''\<rparr>], cached = Map.empty\<rparr>)"
  by (simp add: addNote_def formData_get_def store_insert_def deleteNote_def
      store_delete_eq_id_def)

text \<open>
  C3, amended. A failure that the store's client throws (the awaited request rejects)
  is not caught or translated: \<open>addNote\<close> with a non-empty title and \<open>deleteNote\<close> throw
  that same failure, before the revalidation, and the state is as it was. A failure
  in the \<open>error\<close> field of the response is not thrown on.
\<close>

theorem store_rejection_propagates:
  assumes "formData_get formData ''title'' = Some T" and "T \<noteq> []"
  shows "addNote createdAt i (Rejection e) formData w = Raised e w
       \<and> deleteNote (Rejection e) k w = Raised e w
       \<and> \<not> has_raised (addNote createdAt i (Failure e) formData w)
       \<and> \<not> has_raised (deleteNote (Failure e) k w)"
  using assms by (simp add: addNote_nonempty store_insert_def deleteNote_def store_delete_eq_id_def)

theorem store_rejection_propagates_witness:
  "formData_get [(''title'', ''A''), (''description'', ''B'')] ''title'' = Some ''A''
   \<and> ''A'' \<noteq> []
   \<and> addNote 1700000000000 ''n1'' (Rejection ''fetch failed'')
        [(''title'', ''A''), (''description'', ''B'')] \<lparr>rows = [], cached = Map.empty\<rparr>
      = Raised ''fetch failed'' \<lparr>rows = [], cached = Map.empty\<rparr>
   \<and> deleteNote (Rejection ''fetch failed'') ''n1'' \<lparr>rows = [], cached = Map.empty\<rparr>
      = Raised ''fetch failed'' \<lparr>rows = [], cached = Map.empty\<rparr>
   \<and> \<not> has_raised (addNote 1700000000000 ''n1'' (Failure ''fetch failed'')
        [(''title'', ''A''), (''description'', ''B'')] \<lparr>rows = [], cached = Map.empty\<rparr>)
   \<and> \<not> has_raised (deleteNote (Failure ''fetch failed'') ''n1''
        \<lparr>rows = [], cached = Map.empty\<rparr>)"
proof -
  have h1: "formData_get [(''title'', ''A''), (''description'', ''B'')] ''title'' = Some ''A''"
    by (simp add: formData_get_def)
  have h2: "''A'' \<noteq> []"
    by simp
  show ?thesis
    using h1 h2
      store_rejection_propagates [OF h1 h2, where createdAt = 1700000000000
        and i = "''n1''" and e = "''fetch failed''" and k = "''n1''"
        and w = "\<lparr>rows = [], cached = Map.empty\<rparr>"]
    by blast
qed

subsection \<open>Deletion\<close>

text \<open>
  C4. Deleting an identifier that is in the table, the identifiers of the table being
  unique: the table splits around the one row of that identifier, \<open>deleteNote\<close> returns
  normally, and the table after is the rows before it followed by the rows behind it,
  unchanged and in their order; these are the rows of another identifier.
\<close>

theorem deleteNote_removes_that_record:
  assumes "i \<in> set (map note_id (rows w))" and "distinct (map note_id (rows w))"
  shows "\<exists>pre n post.
       rows w = pre @ n # post \<and> note_id n = i
     \<and> deleteNote Success i w = Returned () (revalidatePath ''/notes'' (w\<lparr>rows := pre @ post\<rparr>))
     \<and> rows (world_of (deleteNote Success i w)) = pre @ post
     \<and> rows (world_of (deleteNote Success i w)) = filter (\<lambda>m. note_id m \<noteq> i) (rows w)"
proof -
  from assms(1) obtain n where n: "n \<in> set (rows w)" "note_id n = i"
    by auto
  then obtain pre post where sp: "rows w = pre @ n # post"
    by (auto dest: split_list)
  from assms(2) sp n(2) have "\<forall>m \<in> set pre \<union> set post. note_id m \<noteq> i"
    by (auto simp: image_iff)
  then have f: "filter (\<lambda>m. note_id m \<noteq> i) (rows w) = pre @ post"
    using sp n(2) by (simp add: filter_id_conv)
  have d: "deleteNote Success i w =
      Returned () (revalidatePath ''/notes'' (w\<lparr>rows := filter (\<lambda>m. note_id m \<noteq> i) (rows w)\<rparr>))"
    by (simp add: deleteNote_def store_delete_eq_id_def)
  show ?thesis
    using sp n(2) f d by (auto simp: rows_revalidatePath)
qed

theorem deleteNote_removes_that_record_witness:
  "''n2'' \<in> set (map note_id (rows
      \<lparr>rows = [\<lparr>title = ''A'', description = Some ''B'', created_at = 1, note_id = ''n1''\<rparr>,
                \<lparr>title = ''C'', description = None, created_at = 2, note_id = ''n2''\<rparr>,
                \<lparr>title = ''A'', description = Some ''B'', created_at = 3, note_id = ''n3''\<rparr>],
       cached = Map.empty\<rparr>))
   \<and> distinct (map note_id (rows
      \<lparr>rows = [\<lparr>title = ''A'', description = Some ''B'', created_at = 1, note_id = ''n1''\<rparr>,
                \<lparr>title = ''C'', description = None, created_at = 2, note_id = ''n2''\<rparr>,
                \<lparr>title = ''A'', description = Some ''B'', created_at = 3, note_id = ''n3''\<rparr>],
       cached = Map.empty\<rparr>))
   \<and> rows (world_of (deleteNote Success ''n2''
      \<lparr>rows = [\<lparr>title = ''A'', description = Some ''B'', created_at = 1, note_id = ''n1''\<rparr>,
                \<lparr>title = ''C'', description = None, created_at = 2, note_id = ''n2''\<rparr>,
                \<lparr>title = ''A'', description = Some ''B'', created_at = 3, note_id = ''n3''\<rparr>],
       cached = Map.empty\<rparr>))
     = [\<lparr>title = ''A'', description = Some ''B'', created_at = 1, note_id = ''n1''\<rparr>,
        \<lparr>title = ''A'', description = Some ''B'', created_at = 3, note_id = ''n3''\<rparr>]"
proof -
  let ?w = "\<lparr>rows = [\<lparr>title = ''A'', description = Some ''B'', created_at = 1, note_id = ''n1''\<rparr>,
                \<lparr>title = ''C'', description = None, created_at = 2, note_id = ''n2''\<rparr>,
                \<lparr>title = ''A'', description = Some ''B'', created_at = 3, note_id = ''n3''\<rparr>],
       cached = Map.empty\<rparr>"
  have h1: "''n2'' \<in> set (map note_id (rows ?w))"
    by simp
  have h2: "distinct (map note_id (rows ?w))"
    by simp
  from deleteNote_removes_that_record [OF h1 h2]
  have "rows (world_of (deleteNote Success ''n2'' ?w))
      = filter (\<lambda>m. note_id m \<noteq> ''n2'') (rows ?w)"
    by blast
  then show ?thesis
    using h1 h2 by simp
qed

text \<open>
  C5. Deleting an identifier that is not in the table: \<open>deleteNote\<close> does not throw, and
  the table is as it was (only the cached view is dropped).
\<close>

theorem deleteNote_absent_id_unchanged:
  assumes "i \<notin> set (map note_id (rows w))"
  shows "deleteNote Success i w = Returned () (revalidatePath ''/notes'' w)
       \<and> rows (world_of (deleteNote Success i w)) = rows w
       \<and> \<not> has_raised (deleteNote Success i w)"
proof -
  from assms have "filter (\<lambda>m. note_id m \<noteq> i) (rows w) = rows w"
    by (auto simp: filter_id_conv)
  then have "deleteNote Success i w = Returned () (revalidatePath ''/notes'' w)"
    by (simp add: deleteNote_def store_delete_eq_id_def)
  then show ?thesis
    by (simp add: rows_revalidatePath)
qed

theorem deleteNote_absent_id_unchanged_witness:
  "''n9'' \<notin> set (map note_id (rows
      \<lparr>rows = [\<lparr>title = ''A'', description = Some ''B'', created_at = 1, note_id = ''n1''\<rparr>],
       cached = Map.empty\<rparr>))
   \<and> rows (world_of (deleteNote Success ''n9''
      \<lparr>rows = [\<lparr>title = ''A'', description = Some ''B'', created_at = 1, note_id = ''n1''\<rparr>],
       cached = Map.empty\<rparr>))
     = [\<lparr>title = ''A'', description = Some ''B'', created_at = 1, note_id = ''n1''\<rparr>]
   \<and> \<not> has_raised (deleteNote Success ''n9''
      \<lparr>rows = [\<lparr>title = ''A'', description = Some ''B'', created_at = 1, note_id = ''n1''\<rparr>],
       cached = Map.empty\<rparr>)"
proof -
  let ?w = "\<lparr>rows = [\<lparr>title = ''A'', description = Some ''B'', created_at = 1, note_id = ''n1''\<rparr>],
       cached = Map.empty\<rparr>"
  have h: "''n9'' \<notin> set (map note_id (rows ?w))"
    by simp
  from deleteNote_absent_id_unchanged [OF h] h show ?thesis
    by (simp add: rows_revalidatePath)
qed

subsection \<open>Revalidation\<close>

text \<open>
  C6. When \<open>addNote\<close> with a non-empty title has returned, or \<open>deleteNote\<close> has returned,
  no view is held for \<open>/notes\<close>, so the listing served next is rendered from the table
  as the action left it, whatever view was held before.
\<close>

theorem mutation_invalidates_cached_view:
  assumes "(\<exists>T. formData_get formData ''title'' = Some T \<and> T \<noteq> []
                \<and> addNote createdAt i r formData w = Returned () w')
           \<or> deleteNote r k w = Returned () w'"
  shows "cached w' ''/notes'' = None
       \<and> (\<exists>w''. serve_notes Success w' =
             Returned \<lparr>cards = map note_card (rows w'), no_notes_yet = (rows w' = [])\<rparr> w'')"
proof -
  from assms obtain w1 where "w' = revalidatePath ''/notes'' w1"
    using addNote_returned_revalidated deleteNote_returned_revalidated by blast
  then show ?thesis
    by (simp add: cached_revalidatePath serve_notes_after_revalidate rows_revalidatePath)
qed

theorem mutation_invalidates_cached_view_witness:
  "formData_get [(''title'', ''A''), (''description'', ''B'')] ''title'' = Some ''A''
   \<and> addNote 1 ''n1'' Success [(''title'', ''A''), (''description'', ''B'')]
        \<lparr>rows = [], cached = [''/notes'' \<mapsto> \<lparr>cards = [], no_notes_yet = True\<rparr>]\<rparr>
      = Returned ()
        \<lparr>rows = [\<lparr>title = ''A'', description = Some ''B'', created_at = 1, note_id = ''n1''\<rparr>],
         cached = Map.empty\<rparr>
   \<and> cached
        \<lparr>rows = [\<lparr>title = ''A'', description = Some ''B'', created_at = 1, note_id = ''n1''\<rparr>],
         cached = Map.empty\<rparr> ''/notes'' = None
   \<and> (\<exists>w''. serve_notes Success
        \<lparr>rows = [\<lparr>title = ''A'', description = Some ''B'', created_at = 1, note_id = ''n1''\<rparr>],
         cached = Map.empty\<rparr>
        = Returned
            \<lparr>cards = [\<lparr>key = ''n1'', card_title = ''A'', card_text = Some ''B'',
                       noteId = ''n1''\<rparr>],
             no_notes_yet = False\<rparr> w'')
   \<and> deleteNote Success ''n1''
        \<lparr>rows = [\<lparr>title = ''A'', description = Some ''B'', created_at = 1, note_id = ''n1''\<rparr>],
         cached = [''/notes'' \<mapsto>
           \<lparr>cards = [\<lparr>key = ''n1'', card_title = ''A'', card_text = Some ''B'',
                      noteId = ''n1''\<rparr>],
            no_notes_yet = False\<rparr>]\<rparr>
      = Returned () \<lparr>rows = [], cached = Map.empty\<rparr>
   \<and> (\<exists>w''. serve_notes Success \<lparr>rows = [], cached = Map.empty\<rparr>
        = Returned \<lparr>cards = [], no_notes_yet = True\<rparr> w'')"
proof -
  let ?fd = "[(''title'', ''A''), (''description'', ''B'')]"
  let ?n = "\<lparr>title = ''A'', description = Some ''B'', created_at = 1, note_id = ''n1''\<rparr>"
  let ?e = "\<lparr>rows = [], cached = Map.empty\<rparr>"
  let ?w = "\<lparr>rows = [], cached = [''/notes'' \<mapsto> \<lparr>cards = [], no_notes_yet = True\<rparr>]\<rparr>"
  let ?w' = "\<lparr>rows = [?n], cached = Map.empty\<rparr>"
  let ?u = "\<lparr>rows = [?n], cached = [''/notes'' \<mapsto>
           \<lparr>cards = [\<lparr>key = ''n1'', card_title = ''A'', card_text = Some ''B'',
                      noteId = ''n1''\<rparr>],
            no_notes_yet = False\<rparr>]\<rparr>"
  have h1: "formData_get ?fd ''title'' = Some ''A''"
    by (simp add: formData_get_def)
  have h2: "addNote 1 ''n1'' Success ?fd ?w = Returned () ?w'"
    by (simp add: addNote_def formData_get_def store_insert_def revalidatePath_def)
  have h3: "deleteNote Success ''n1'' ?u = Returned () ?e"
    by (simp add: deleteNote_def store_delete_eq_id_def revalidatePath_def)
  have h: "(\<exists>T. formData_get ?fd ''title'' = Some T \<and> T \<noteq> []
                \<and> addNote 1 ''n1'' Success ?fd ?w = Returned () ?w')
           \<or> deleteNote Success ''n1'' ?w = Returned () ?w'"
    using h1 h2 by simp
  have g: "(\<exists>T. formData_get ?fd ''title'' = Some T \<and> T \<noteq> []
                \<and> addNote 1 ''n1'' Success ?fd ?u = Returned () ?e)
           \<or> deleteNote Success ''n1'' ?u = Returned () ?e"
    using h3 by simp
  from mutation_invalidates_cached_view [OF h] mutation_invalidates_cached_view [OF g]
    h1 h2 h3
  show ?thesis
    by (simp add: note_card_def)
qed

subsection \<open>Listing\<close>

text \<open>
  C7. \<open>NotesContent\<close> takes no input. When the store answers the select, the view has one
  card for every row of the table, in the table's order, none left out and none added:
  the keys, titles, texts and delete buttons of the cards are the \<open>id\<close>, \<open>title\<close>,
  \<open>description\<close> and \<open>id\<close> columns of the table. With no rows it is the view without cards
  and with the line "No notes yet", not an error.
\<close>

theorem NotesContent_lists_all_rows:
  "(\<exists>v. NotesContent Success w = Returned v w
       \<and> length (cards v) = length (rows w)
       \<and> map key (cards v) = map note_id (rows w)
       \<and> map card_title (cards v) = map title (rows w)
       \<and> map card_text (cards v) = map description (rows w)
       \<and> map noteId (cards v) = map note_id (rows w)
       \<and> no_notes_yet v = (rows w = []))
   \<and> NotesContent Success (w\<lparr>rows := []\<rparr>)
       = Returned \<lparr>cards = [], no_notes_yet = True\<rparr> (w\<lparr>rows := []\<rparr>)"
proof -
  have l: "NotesContent Success w =
      Returned \<lparr>cards = map note_card (rows w), no_notes_yet = (rows w = [])\<rparr> w"
    by (simp add: NotesContent_def store_select_def)
  have e: "NotesContent Success (w\<lparr>rows := []\<rparr>)
      = Returned \<lparr>cards = [], no_notes_yet = True\<rparr> (w\<lparr>rows := []\<rparr>)"
    by (simp add: NotesContent_def store_select_def)
  have c: "key \<circ> note_card = note_id" "card_title \<circ> note_card = title"
    "card_text \<circ> note_card = description" "noteId \<circ> note_card = note_id"
    by (simp_all add: fun_eq_iff note_card_def)
  show ?thesis
    using l e c by simp
qed

theorem NotesContent_lists_all_rows_witness:
  "NotesContent Success
      \<lparr>rows = [\<lparr>title = ''A'', description = Some ''B'', created_at = 1, note_id = ''n1''\<rparr>,
                \<lparr>title = ''C'', description = None, created_at = 2, note_id = ''n2''\<rparr>],
       cached = Map.empty\<rparr>
   = Returned
      \<lparr>cards = [\<lparr>key = ''n1'', card_title = ''A'', card_text = Some ''B'', noteId = ''n1''\<rparr>,
                 \<lparr>key = ''n2'', card_title = ''C'', card_text = None, noteId = ''n2''\<rparr>],
       no_notes_yet = False\<rparr>
      \<lparr>rows = [\<lparr>title = ''A'', description = Some ''B'', created_at = 1, note_id = ''n1''\<rparr>,
                \<lparr>title = ''C'', description = None, created_at = 2, note_id = ''n2''\<rparr>],
       cached = Map.empty\<rparr>
   \<and> NotesContent Success \<lparr>rows = [], cached = Map.empty\<rparr>
     = Returned \<lparr>cards = [], no_notes_yet = True\<rparr> \<lparr>rows = [], cached = Map.empty\<rparr>"
  using NotesContent_lists_all_rows [of
      "\<lparr>rows = [\<lparr>title = ''A'', description = Some ''B'', created_at = 1, note_id = ''n1''\<rparr>,
                \<lparr>title = ''C'', description = None, created_at = 2, note_id = ''n2''\<rparr>],
       cached = Map.empty\<rparr>"]
  by (simp add: NotesContent_def store_select_def note_card_def)

subsection \<open>Notes do not change\<close>

text \<open>
  C8. The interface has requests to create, to delete and to list, and none to update.
  Over every sequence of requests, with any answers of the store: a row that is in the
  table is found again afterwards under its \<open>id\<close> with the same \<open>title\<close>, \<open>description\<close>
  and \<open>created_at\<close>, unless the sequence has a deletion of that \<open>id\<close> that the store
  carried out.
\<close>

theorem note_unchanged_until_deleted:
  assumes "find_note k w = Some n"
  shows "find_note k (run reqs w) = Some n \<or> Delete Success k \<in> set reqs"
  using assms
proof (induction reqs arbitrary: w)
  case Nil
  then show ?case by (simp add: run_def)
next
  case (Cons q reqs)
  from find_note_step [OF Cons.prems, of q]
  show ?case
  proof
    assume "find_note k (step q w) = Some n"
    from Cons.IH [OF this] show ?thesis
      by (auto simp: run_def)
  next
    assume "find_note k (step q w) = None \<and> q = Delete Success k"
    then show ?thesis by simp
  qed
qed

theorem note_unchanged_until_deleted_witness:
  "find_note ''n1''
      \<lparr>rows = [\<lparr>title = ''A'', description = Some ''B'', created_at = 1, note_id = ''n1''\<rparr>],
       cached = Map.empty\<rparr>
   = Some \<lparr>title = ''A'', description = Some ''B'', created_at = 1, note_id = ''n1''\<rparr>
   \<and> Delete Success ''n1''
        \<notin> set [Create 2 ''n2'' Success [(''title'', ''C'')], Delete Success ''n2'',
               Delete (Failure ''denied'') ''n1'', Listing Success, Create 3 ''n3'' Success []]
   \<and> find_note ''n1''
        (run [Create 2 ''n2'' Success [(''title'', ''C'')], Delete Success ''n2'',
              Delete (Failure ''denied'') ''n1'', Listing Success, Create 3 ''n3'' Success []]
          \<lparr>rows = [\<lparr>title = ''A'', description = Some ''B'', created_at = 1, note_id = ''n1''\<rparr>],
           cached = Map.empty\<rparr>)
     = Some \<lparr>title = ''A'', description = Some ''B'', created_at = 1, note_id = ''n1''\<rparr>"
proof -
  let ?w = "\<lparr>rows = [\<lparr>title = ''A'', description = Some ''B'', created_at = 1, note_id = ''n1''\<rparr>],
       cached = Map.empty\<rparr>"
  let ?reqs = "[Create 2 ''n2'' Success [(''title'', ''C'')], Delete Success ''n2'',
               Delete (Failure ''denied'') ''n1'', Listing Success, Create 3 ''n3'' Success []]"
  have h: "find_note ''n1'' ?w
      = Some \<lparr>title = ''A'', description = Some ''B'', created_at = 1, note_id = ''n1''\<rparr>"
    by (simp add: find_note_def)
  have d: "Delete Success ''n1'' \<notin> set ?reqs"
    by simp
  from note_unchanged_until_deleted [OF h, of ?reqs] d h show ?thesis
    by blast
qed

subsection \<open>Whitespace-only titles\<close>

text \<open>
  C9. A title that is not empty and consists of whitespace only passes the guard of
  \<open>addNote\<close>: accepted by the store, it is inserted as a row with that title and the view
  is invalidated, and the result is not the one of the silent return, which leaves the
  state as it was.
\<close>

theorem addNote_whitespace_title_inserted:
  assumes "formData_get formData ''title'' = Some T" and "whitespace_only T"
  shows "addNote createdAt i Success formData w =
           Returned () (revalidatePath ''/notes''
             (w\<lparr>rows := rows w @ [\<lparr>title = T, description = formData_get formData ''description'',
                                     created_at = createdAt, note_id = i\<rparr>]\<rparr>))
       \<and> addNote createdAt i Success formData w \<noteq> Returned () w"
proof -
  let ?n = "\<lparr>title = T, description = formData_get formData ''description'',
             created_at = createdAt, note_id = i\<rparr>"
  from assms(2) have "T \<noteq> []"
    by (simp add: whitespace_only_def)
  with assms(1) have a: "addNote createdAt i Success formData w =
      Returned () (revalidatePath ''/notes'' (w\<lparr>rows := rows w @ [?n]\<rparr>))"
    by (simp add: addNote_nonempty store_insert_def)
  have "rows (revalidatePath ''/notes'' (w\<lparr>rows := rows w @ [?n]\<rparr>)) \<noteq> rows w"
    by (simp add: rows_revalidatePath)
  then have "revalidatePath ''/notes'' (w\<lparr>rows := rows w @ [?n]\<rparr>) \<noteq> w"
    by metis
  with a show ?thesis by simp
qed

theorem addNote_whitespace_title_inserted_witness:
  "formData_get [(''title'', '' ''), (''description'', '''')] ''title'' = Some '' ''
   \<and> whitespace_only '' ''
   \<and> addNote 1700000000000 ''n1'' Success [(''title'', '' ''), (''description'', '''')]
        \<lparr>rows = [], cached = Map.empty\<rparr>
      = Returned ()
        \<lparr>rows = [\<lparr>title = '' '', description = Some '''', created_at = 1700000000000,
                   note_id = ''n1''\<rparr>],
         cached = Map.empty\<rparr>
   \<and> addNote 1700000000000 ''n1'' Success [(''title'', '' ''), (''description'', '''')]
        \<lparr>rows = [], cached = Map.empty\<rparr>
      \<noteq> Returned () \<lparr>rows = [], cached = Map.empty\<rparr>"
proof -
  let ?fd = "[(''title'', '' ''), (''description'', '''')]"
  have h1: "formData_get ?fd ''title'' = Some '' ''"
    by (simp add: formData_get_def)
  have h2: "whitespace_only '' ''"
    by (simp add: whitespace_only_def)
  from addNote_whitespace_title_inserted [OF h1 h2, of 1700000000000 "''n1''"
      "\<lparr>rows = [], cached = Map.empty\<rparr>"] h1 h2
  show ?thesis
    by (simp add: formData_get_def revalidatePath_def)
qed

subsection \<open>Error results\<close>

text \<open>
  C10. When the store answers the insert or the delete with a response whose \<open>error\<close>
  field is set, \<open>addNote\<close> (with a non-empty title) and \<open>deleteNote\<close> return normally,
  with the table as it was and the view of \<open>/notes\<close> dropped: the revalidation does not
  depend on the mutation having succeeded.
\<close>

theorem store_error_result_discarded:
  assumes "formData_get formData ''title'' = Some T" and "T \<noteq> []"
  shows "addNote createdAt i (Failure e) formData w = Returned () (revalidatePath ''/notes'' w)
       \<and> deleteNote (Failure e) k w = Returned () (revalidatePath ''/notes'' w)
       \<and> cached (revalidatePath ''/notes'' w) ''/notes'' = None
       \<and> rows (revalidatePath ''/notes'' w) = rows w"
  using assms
  by (simp add: addNote_nonempty store_insert_def deleteNote_def store_delete_eq_id_def
      rows_revalidatePath cached_revalidatePath)

theorem store_error_result_discarded_witness:
  "formData_get [(''title'', ''A''), (''description'', ''B'')] ''title'' = Some ''A''
   \<and> ''A'' \<noteq> []
   \<and> addNote 1700000000000 ''n1'' (Failure ''permission denied'')
        [(''title'', ''A''), (''description'', ''B'')]
        \<lparr>rows = [], cached = [''/notes'' \<mapsto> \<lparr>cards = [], no_notes_yet = True\<rparr>]\<rparr>
      = Returned () \<lparr>rows = [], cached = Map.empty\<rparr>
   \<and> deleteNote (Failure ''permission denied'') ''n1''
        \<lparr>rows = [], cached = [''/notes'' \<mapsto> \<lparr>cards = [], no_notes_yet = True\<rparr>]\<rparr>
      = Returned () \<lparr>rows = [], cached = Map.empty\<rparr>"
proof -
  let ?fd = "[(''title'', ''A''), (''description'', ''B'')]"
  let ?w = "\<lparr>rows = [], cached = [''/notes'' \<mapsto> \<lparr>cards = [], no_notes_yet = True\<rparr>]\<rparr>"
  have h1: "formData_get ?fd ''title'' = Some ''A''"
    by (simp add: formData_get_def)
  have h2: "''A'' \<noteq> []"
    by simp
  from store_error_result_discarded [OF h1 h2, of 1700000000000 "''n1''"
      "''permission denied''" ?w "''n1''"] h1 h2
  show ?thesis
    by (simp add: revalidatePath_def)
qed

end
